theory Spec2Isabelle
  imports Complex_Main
begin

section \<open>ClassificationModelWrapper: the training loop of wrapper.py\<close>

text \<open>
  The wrapper drives a torch model through a fit/evaluate cycle. The tensor library is
  outside the program: the model's forward pass, the loss, the accuracy metric and the
  optimizer are collaborators, taken here as functions of the values the program hands
  them. What the program itself does (the loops over the loaders, the accumulation of the
  means, the patience counter, the checkpoints, the history table) is embedded equation by
  equation. Python floats are read as real numbers: rounding and NaN are not modelled.
  The calls to \<^verbatim>\<open>print\<close>, \<^verbatim>\<open>tqdm\<close>, \<^verbatim>\<open>.to(device)\<close>,
  \<^verbatim>\<open>.detach().cpu()\<close> and \<^verbatim>\<open>torch.cuda.empty_cache()\<close> change nothing the
  program later reads and are left out.
\<close>

subsection \<open>Errors\<close>

datatype error =
  ZeroDivisionError
  | RuntimeError string
  | ValueError string
  | AttributeError string
  | FileNotFoundError string

subsection \<open>Setup: load_model and init_optim\<close>

datatype architecture = EfficientNet_B0 | AlexNet | VGG11 | VGG11_BN

text \<open>
  What \<^verbatim>\<open>load_model\<close> leaves in \<^verbatim>\<open>self.weights\<close> and \<^verbatim>\<open>self.model\<close>: the
  architecture with its DEFAULT weights, the feature parameters frozen, the classifier
  replaced by Dropout(p=0.2) and Linear(1280, num_classes), and the checkpoint loaded over
  it when one is given.
\<close>

record network =
  net_arch :: architecture
  features_requires_grad :: bool
  classifier_dropout :: real
  classifier_in :: nat
  classifier_out :: nat
  loaded_checkpoint :: "string option"

datatype loss_kind = CrossEntropyLoss | BCEWithLogitsLoss

datatype optimizer_kind = Adam real real | SGD real real

text \<open>
  The attributes the setup methods read and write. An attribute that has not been
  assigned yet is \<open>None\<close>, and reading it raises AttributeError. \<open>num_classes_attr\<close> is
  assigned by \<^verbatim>\<open>prepare_dataloaders\<close>, \<open>model_attr\<close> by \<^verbatim>\<open>load_model\<close>.
\<close>

record wrapper =
  LR :: real
  WEIGHT_DECAY :: real
  num_classes_attr :: "nat option"
  model_attr :: "network option"
  criterion_attr :: "loss_kind option"
  acc_fn_attr :: "string option"
  optimizer_attr :: "optimizer_kind option"

text \<open>
  The library calls of the setup that can raise. \<open>pretrained\<close> is the constructor of
  \<^verbatim>\<open>torchvision.models\<close> called with the DEFAULT weights, which it may have to fetch;
  \<open>torch_load\<close> reads a checkpoint file and \<open>load_state_dict\<close> copies what was read into
  the model, and either raises on a file that is missing or does not fit. An error of
  the library is not caught by the wrapper. \<open>repr_float\<close> is the rendering of a float in
  the library's messages.
\<close>

record 'sd torch =
  pretrained :: "architecture \<Rightarrow> error + unit"
  torch_load :: "string \<Rightarrow> error + 'sd"
  load_state_dict :: "network \<Rightarrow> 'sd \<Rightarrow> error + unit"
  repr_float :: "real \<Rightarrow> string"

definition finish_model :: "architecture \<Rightarrow> nat \<Rightarrow> network" where
  "finish_model a num_classes =
     \<lparr>net_arch = a, features_requires_grad = False, classifier_dropout = 2 / 10,
      classifier_in = 1280, classifier_out = num_classes, loaded_checkpoint = None\<rparr>"

text \<open>
  Lines 87 to 113 for one architecture: the pretrained model is built, its features are
  frozen and its classifier replaced, and the checkpoint, when one is given, is loaded.
  \<^verbatim>\<open>self.model\<close> is assigned before the checkpoint is read.
\<close>

definition build_model ::
  "'sd torch \<Rightarrow> wrapper \<Rightarrow> architecture \<Rightarrow> nat \<Rightarrow> string option \<Rightarrow> (error + unit) \<times> wrapper" where
  "build_model t w a num_classes checkpoint =
     (case pretrained t a of
        Inl err \<Rightarrow> (Inl err, w)
      | Inr _ \<Rightarrow>
          (let net = finish_model a num_classes;
               w1 = w\<lparr>model_attr := Some net\<rparr>
           in case checkpoint of
                None \<Rightarrow> (Inr (), w1)
              | Some path \<Rightarrow>
                  (case torch_load t path of
                     Inl err \<Rightarrow> (Inl err, w1)
                   | Inr sd \<Rightarrow>
                       (case load_state_dict t net sd of
                          Inl err \<Rightarrow> (Inl err, w1)
                        | Inr _ \<Rightarrow>
                            (Inr (),
                             w1\<lparr>model_attr := Some (net\<lparr>loaded_checkpoint := Some path\<rparr>)\<rparr>)))))"

definition load_model ::
  "'sd torch \<Rightarrow> wrapper \<Rightarrow> nat \<Rightarrow> string \<Rightarrow> string option \<Rightarrow> (error + unit) \<times> wrapper" where
  "load_model t w num_classes model checkpoint =
     (if model = ''efficientnet_b0'' then build_model t w EfficientNet_B0 num_classes checkpoint
      else if model = ''alexnet'' then build_model t w AlexNet num_classes checkpoint
      else if model = ''vgg11'' then build_model t w VGG11 num_classes checkpoint
      else if model = ''vgg11_bn'' then build_model t w VGG11_BN num_classes checkpoint
      else (Inl (RuntimeError ''Incorrect `model` parameter. Check type hint.''), w))"

text \<open>
  The checks that the constructors \<^verbatim>\<open>torch.optim.Adam\<close> and \<^verbatim>\<open>torch.optim.SGD\<close> make on
  the two arguments the wrapper passes: a negative learning rate and a negative weight
  decay are refused with a ValueError.
\<close>

definition check_optimizer_args :: "'sd torch \<Rightarrow> real \<Rightarrow> real \<Rightarrow> error + unit" where
  "check_optimizer_args t lr weight_decay =
     (if lr < 0 then Inl (ValueError (''Invalid learning rate: '' @ repr_float t lr))
      else if weight_decay < 0
      then Inl (ValueError (''Invalid weight_decay value: '' @ repr_float t weight_decay))
      else Inr ())"

text \<open>
  \<^verbatim>\<open>init_optim\<close>. The criterion and the accuracy metric are assigned before the selector
  is looked at, so they stay assigned when the selector is rejected. The two supported
  branches read \<^verbatim>\<open>self.model\<close>; the rejecting branch does not.
\<close>

definition init_optim :: "'sd torch \<Rightarrow> wrapper \<Rightarrow> string \<Rightarrow> (error + unit) \<times> wrapper" where
  "init_optim t w optimizer =
     (case num_classes_attr w of
        None \<Rightarrow> (Inl (AttributeError ''num_classes''), w)
      | Some n \<Rightarrow>
          (let w1 = w\<lparr>criterion_attr :=
                        Some (if n > 2 then CrossEntropyLoss else BCEWithLogitsLoss),
                      acc_fn_attr := Some (if n > 2 then ''multiclass'' else ''binary'')\<rparr>
           in if optimizer = ''Adam'' then
                (case model_attr w1 of
                   None \<Rightarrow> (Inl (AttributeError ''model''), w1)
                 | Some net \<Rightarrow>
                     (case check_optimizer_args t (LR w1) (WEIGHT_DECAY w1) of
                        Inl err \<Rightarrow> (Inl err, w1)
                      | Inr _ \<Rightarrow>
                          (Inr (), w1\<lparr>optimizer_attr := Some (Adam (LR w1) (WEIGHT_DECAY w1))\<rparr>)))
              else if optimizer = ''SGD'' then
                (case model_attr w1 of
                   None \<Rightarrow> (Inl (AttributeError ''model''), w1)
                 | Some net \<Rightarrow>
                     (case check_optimizer_args t (LR w1) (WEIGHT_DECAY w1) of
                        Inl err \<Rightarrow> (Inl err, w1)
                      | Inr _ \<Rightarrow>
                          (Inr (), w1\<lparr>optimizer_attr := Some (SGD (LR w1) (WEIGHT_DECAY w1))\<rparr>)))
              else (Inl (RuntimeError ''Incorrect `optimizer` parameter. Check type hint.''), w1)))"

text \<open>Whether a text occurs in another one as a contiguous piece.\<close>

fun starts_with :: "string \<Rightarrow> string \<Rightarrow> bool" where
  "starts_with s [] = True"
| "starts_with [] (p # ps) = False"
| "starts_with (c # s) (p # ps) = (c = p \<and> starts_with s ps)"

fun occurs_in :: "string \<Rightarrow> string \<Rightarrow> bool" where
  "occurs_in p [] = (p = [])"
| "occurs_in p (c # s) = (starts_with (c # s) p \<or> occurs_in p s)"

subsection \<open>The collaborators and the session state\<close>

text \<open>
  \<open>'p\<close> is the model's parameter state (its \<^verbatim>\<open>state_dict\<close>), \<open>'o\<close> the optimizer's
  state, \<open>'x\<close> and \<open>'y\<close> the inputs and labels of a batch, \<open>'l\<close> the logits and \<open>'c\<close> the
  predicted classes. The forward pass depends on the mode of the model (training or
  evaluation). \<open>optimizer_update\<close> stands for the three calls
  \<^verbatim>\<open>zero_grad(); backward(); step()\<close> on one batch. \<open>str_float\<close> is Python's rendering
  of a float inside an f-string.
\<close>

record ('p, 'o, 'x, 'y, 'l, 'c) env =
  forward :: "bool \<Rightarrow> 'p \<Rightarrow> 'x \<Rightarrow> 'l"
  softmax_argmax :: "'l \<Rightarrow> 'c"
  criterion :: "'l \<Rightarrow> 'y \<Rightarrow> real"
  acc_fn :: "'c \<Rightarrow> 'y \<Rightarrow> real"
  optimizer_update :: "'o \<Rightarrow> 'p \<Rightarrow> 'x \<Rightarrow> 'y \<Rightarrow> 'o \<times> 'p"
  train_loader :: "('x \<times> 'y) list"
  test_loader :: "('x \<times> 'y) list"
  PATH :: string
  str_float :: "real \<Rightarrow> string"

text \<open>A call of \<^verbatim>\<open>torch.save\<close>: the directory, the file name and the saved state.\<close>

record 'p checkpoint =
  ckpt_dir :: string
  ckpt_name :: string
  ckpt_state :: 'p

datatype cell = Int_cell nat | Float_cell real

record dataframe =
  columns :: "string list"
  rows :: "cell list list"

record ('p, 'o) session =
  model_state :: 'p
  model_training :: bool
  optim_state :: 'o
  PATIENCE :: "int option"
  patience_curr :: int
  patience_ended :: bool
  epoch :: nat
  saved :: "'p checkpoint list"
  history :: "dataframe option"

subsection \<open>Rendering the epoch index\<close>

definition digit_char :: "nat \<Rightarrow> char" where
  "digit_char d = ''0123456789'' ! d"

fun str_nat :: "nat \<Rightarrow> string" where
  "str_nat n = (if n < 10 then [digit_char n] else str_nat (n div 10) @ [digit_char (n mod 10)])"

definition checkpoint_name :: "('p, 'o, 'x, 'y, 'l, 'c) env \<Rightarrow> nat \<Rightarrow> real \<Rightarrow> real \<Rightarrow> string" where
  "checkpoint_name c e test_loss test_acc =
     str_nat e @ ''_'' @ str_float c test_loss @ ''_'' @ str_float c test_acc @ ''.pth''"

subsection \<open>The train step\<close>

text \<open>The loop over \<^verbatim>\<open>self.train_loader\<close>, with the two running sums and the session.\<close>

fun train_batches ::
  "('p, 'o, 'x, 'y, 'l, 'c) env \<Rightarrow> ('x \<times> 'y) list \<Rightarrow> real \<times> real \<times> ('p, 'o) session
     \<Rightarrow> real \<times> real \<times> ('p, 'o) session" where
  "train_batches c [] (train_loss, train_acc, s) = (train_loss, train_acc, s)"
| "train_batches c ((train_X, train_y) # bs) (train_loss, train_acc, s) =
     (let logits = forward c (model_training s) (model_state s) train_X;
          preds = softmax_argmax c logits;
          train_loss_batch = criterion c logits train_y;
          train_loss' = train_loss + train_loss_batch;
          train_acc_batch = acc_fn c preds train_y;
          train_acc' = train_acc + train_acc_batch;
          (o', p') = optimizer_update c (optim_state s) (model_state s) train_X train_y
      in train_batches c bs (train_loss', train_acc', s\<lparr>model_state := p', optim_state := o'\<rparr>))"

definition train_step ::
  "('p, 'o, 'x, 'y, 'l, 'c) env \<Rightarrow> ('p, 'o) session \<Rightarrow> error + ((real \<times> real) \<times> ('p, 'o) session)" where
  "train_step c s =
     (let (train_loss, train_acc, s') =
            train_batches c (train_loader c) (0, 0, s\<lparr>model_training := True\<rparr>)
      in if length (train_loader c) = 0 then Inl ZeroDivisionError
         else Inr ((train_loss / real (length (train_loader c)),
                    train_acc / real (length (train_loader c))), s'))"

subsection \<open>The test step\<close>

fun test_batches ::
  "('p, 'o, 'x, 'y, 'l, 'c) env \<Rightarrow> ('p, 'o) session \<Rightarrow> ('x \<times> 'y) list \<Rightarrow> real \<times> real
     \<Rightarrow> real \<times> real" where
  "test_batches c s [] (test_loss, test_acc) = (test_loss, test_acc)"
| "test_batches c s ((test_X, test_y) # bs) (test_loss, test_acc) =
     (let logits = forward c (model_training s) (model_state s) test_X;
          preds = softmax_argmax c logits;
          test_loss_batch = criterion c logits test_y;
          test_loss' = test_loss + test_loss_batch;
          test_acc_batch = acc_fn c preds test_y;
          test_acc' = test_acc + test_acc_batch
      in test_batches c s bs (test_loss', test_acc'))"

text \<open>The patience and checkpoint policy, lines 216 to 225.\<close>

definition patience_policy ::
  "('p, 'o, 'x, 'y, 'l, 'c) env \<Rightarrow> real \<Rightarrow> real \<Rightarrow> real \<Rightarrow> ('p, 'o) session \<Rightarrow> ('p, 'o) session" where
  "patience_policy c test_loss_previous test_loss test_acc s =
     (case PATIENCE s of
        None \<Rightarrow> s
      | Some limit \<Rightarrow>
          if test_loss_previous < test_loss \<and> epoch s \<noteq> 0 then
            (let s1 = s\<lparr>patience_curr := patience_curr s + 1\<rparr>
             in if patience_curr s1 = limit then s1\<lparr>patience_ended := True\<rparr> else s1)
          else if test_loss_previous > test_loss then
            s\<lparr>patience_curr := 0,
              saved := saved s @
                [\<lparr>ckpt_dir = PATH c,
                  ckpt_name = checkpoint_name c (epoch s) test_loss test_acc,
                  ckpt_state = model_state s\<rparr>]\<rparr>
          else s)"

definition test_step ::
  "('p, 'o, 'x, 'y, 'l, 'c) env \<Rightarrow> real \<Rightarrow> ('p, 'o) session
     \<Rightarrow> error + ((real \<times> real) \<times> ('p, 'o) session)" where
  "test_step c test_loss_previous s =
     (let s1 = s\<lparr>model_training := False\<rparr>;
          (loss_sum, acc_sum) = test_batches c s1 (test_loader c) (0, 0)
      in if length (test_loader c) = 0 then Inl ZeroDivisionError
         else
           (let test_loss = loss_sum / real (length (test_loader c));
                test_acc = acc_sum / real (length (test_loader c))
            in Inr ((test_loss, test_acc),
                    patience_policy c test_loss_previous test_loss test_acc s1)))"

subsection \<open>The epoch driver\<close>

definition history_columns :: "string list" where
  "history_columns = [''epoch'', ''train_loss'', ''train_acc'', ''test_loss'', ''test_acc'']"

text \<open>
  The loop over \<^verbatim>\<open>range(EPOCHS)\<close>. It carries the session, the local \<^verbatim>\<open>test_loss\<close>
  and the list \<^verbatim>\<open>results\<close>. \<^verbatim>\<open>self.epoch % TEST_EVERY\<close> raises when
  \<^verbatim>\<open>TEST_EVERY\<close> is 0, and Python's \<^verbatim>\<open>%\<close> takes the sign of the divisor, as
  \<open>mod\<close> on \<open>int\<close> does.
\<close>

fun train_epochs ::
  "('p, 'o, 'x, 'y, 'l, 'c) env \<Rightarrow> int \<Rightarrow> nat list
     \<Rightarrow> ('p, 'o) session \<times> real \<times> cell list list
     \<Rightarrow> error + (('p, 'o) session \<times> cell list list)" where
  "train_epochs c TEST_EVERY [] (s, test_loss, results) = Inr (s, results)"
| "train_epochs c TEST_EVERY (e # es) (s, test_loss, results) =
     (let s1 = s\<lparr>epoch := e\<rparr>
      in if patience_ended s1 then Inr (s1, results)
         else
           (case train_step c s1 of
              Inl err \<Rightarrow> Inl err
            | Inr ((train_loss, train_acc), s2) \<Rightarrow>
                if TEST_EVERY = 0 then Inl ZeroDivisionError
                else if int (epoch s2) mod TEST_EVERY = 0 then
                  (case test_step c test_loss s2 of
                     Inl err \<Rightarrow> Inl err
                   | Inr ((test_loss', test_acc), s3) \<Rightarrow>
                       train_epochs c TEST_EVERY es
                         (s3, test_loss',
                          results @ [[Int_cell e, Float_cell train_loss, Float_cell train_acc,
                                      Float_cell test_loss', Float_cell test_acc]]))
                else train_epochs c TEST_EVERY es (s2, test_loss, results)))"

definition train ::
  "('p, 'o, 'x, 'y, 'l, 'c) env \<Rightarrow> int \<Rightarrow> int \<Rightarrow> int option \<Rightarrow> ('p, 'o) session
     \<Rightarrow> error + (dataframe \<times> ('p, 'o) session)" where
  "train c EPOCHS TEST_EVERY patience s =
     (let s0 = s\<lparr>PATIENCE := patience, patience_curr := 0, patience_ended := False\<rparr>
      in case train_epochs c TEST_EVERY [0..<nat EPOCHS] (s0, 0, []) of
           Inl err \<Rightarrow> Inl err
         | Inr (s', results) \<Rightarrow>
             (let h = \<lparr>columns = history_columns, rows = results\<rparr>
              in Inr (h, s'\<lparr>history := Some h\<rparr>)))"

subsection \<open>The means as the specification words them\<close>

text \<open>
  The specification describes the result of a step as the per-batch values, summed in
  iterator order and divided by the number of batches. The three definitions below follow
  these words; they are compared with \<open>train_step\<close> and \<open>test_step\<close> further down.
  \<open>batch_metrics\<close> is the loss and the accuracy of one batch under given parameters;
  \<open>train_values\<close> lists them for a training pass, where every batch sees the parameters
  left by the optimizer on the batches before it; \<open>test_values\<close> lists them for an
  evaluation pass, where every batch sees the same parameters.
\<close>

definition batch_metrics ::
  "('p, 'o, 'x, 'y, 'l, 'c) env \<Rightarrow> bool \<Rightarrow> 'p \<Rightarrow> 'x \<times> 'y \<Rightarrow> real \<times> real" where
  "batch_metrics c training p b =
     (criterion c (forward c training p (fst b)) (snd b),
      acc_fn c (softmax_argmax c (forward c training p (fst b))) (snd b))"

fun train_values ::
  "('p, 'o, 'x, 'y, 'l, 'c) env \<Rightarrow> 'o \<Rightarrow> 'p \<Rightarrow> ('x \<times> 'y) list \<Rightarrow> (real \<times> real) list" where
  "train_values c opt p [] = []"
| "train_values c opt p (b # bs) =
     batch_metrics c True p b #
       train_values c (fst (optimizer_update c opt p (fst b) (snd b)))
         (snd (optimizer_update c opt p (fst b) (snd b))) bs"

definition test_values ::
  "('p, 'o, 'x, 'y, 'l, 'c) env \<Rightarrow> 'p \<Rightarrow> ('x \<times> 'y) list \<Rightarrow> (real \<times> real) list" where
  "test_values c p bs = map (batch_metrics c False p) bs"

definition mean_in_order :: "real list \<Rightarrow> real" where
  "mean_in_order vs = foldl (+) 0 vs / real (length vs)"

subsection \<open>The epochs that run and their records\<close>

text \<open>
  \<open>before_epoch\<close> is the loop of \<^verbatim>\<open>train\<close> over the epochs before \<open>e\<close>: the session and
  the results with which the loop arrives at epoch \<open>e\<close>. Epoch \<open>e\<close> runs when the loop
  arrives there with the stop flag unset, and is stopped when it arrives with the flag
  set (or has left the loop before). \<open>last_test_loss\<close> is the value of the local
  \<^verbatim>\<open>test_loss\<close> after the given results: the sentinel 0, or the test loss of the last
  record. \<open>epoch_record\<close> is the record of an epoch on which the evaluation is scheduled,
  in the order of the columns: the epoch, the loss and the accuracy returned by its
  train step, and the loss and the accuracy returned by its test step.
\<close>

definition before_epoch ::
  "('p, 'o, 'x, 'y, 'l, 'c) env \<Rightarrow> int \<Rightarrow> int option \<Rightarrow> ('p, 'o) session \<Rightarrow> nat
     \<Rightarrow> error + (('p, 'o) session \<times> cell list list)" where
  "before_epoch c TEST_EVERY patience s e =
     train_epochs c TEST_EVERY [0..<e]
       (s\<lparr>PATIENCE := patience, patience_curr := 0, patience_ended := False\<rparr>, 0, [])"

definition epoch_runs ::
  "('p, 'o, 'x, 'y, 'l, 'c) env \<Rightarrow> int \<Rightarrow> int option \<Rightarrow> ('p, 'o) session \<Rightarrow> nat \<Rightarrow> bool" where
  "epoch_runs c TEST_EVERY patience s e =
     (case before_epoch c TEST_EVERY patience s e of
        Inl err \<Rightarrow> False
      | Inr (se, results) \<Rightarrow> \<not> patience_ended se)"

definition epoch_stopped ::
  "('p, 'o, 'x, 'y, 'l, 'c) env \<Rightarrow> int \<Rightarrow> int option \<Rightarrow> ('p, 'o) session \<Rightarrow> nat \<Rightarrow> bool" where
  "epoch_stopped c TEST_EVERY patience s e =
     (case before_epoch c TEST_EVERY patience s e of
        Inl err \<Rightarrow> False
      | Inr (se, results) \<Rightarrow> patience_ended se)"

fun cell_float :: "cell \<Rightarrow> real" where
  "cell_float (Float_cell x) = x"
| "cell_float (Int_cell n) = real n"

definition last_test_loss :: "cell list list \<Rightarrow> real" where
  "last_test_loss results = (if results = [] then 0 else cell_float (last results ! 3))"

definition epoch_record ::
  "('p, 'o, 'x, 'y, 'l, 'c) env \<Rightarrow> int \<Rightarrow> int option \<Rightarrow> ('p, 'o) session \<Rightarrow> nat \<Rightarrow> cell list" where
  "epoch_record c TEST_EVERY patience s e =
     (case before_epoch c TEST_EVERY patience s e of
        Inl err \<Rightarrow> []
      | Inr (se, results) \<Rightarrow>
          (case train_step c (se\<lparr>epoch := e\<rparr>) of
             Inl err \<Rightarrow> []
           | Inr ((train_loss, train_acc), s2) \<Rightarrow>
               (case test_step c (last_test_loss results) s2 of
                  Inl err \<Rightarrow> []
                | Inr ((test_loss, test_acc), s3) \<Rightarrow>
                    [Int_cell e, Float_cell train_loss, Float_cell train_acc,
                     Float_cell test_loss, Float_cell test_acc])))"

subsection \<open>The selectors the setup accepts\<close>

definition supported_models :: "string list" where
  "supported_models = [''efficientnet_b0'', ''alexnet'', ''vgg11'', ''vgg11_bn'']"

definition supported_optimizers :: "string list" where
  "supported_optimizers = [''SGD'', ''Adam'']"

definition architecture_of :: "string \<Rightarrow> architecture option" where
  "architecture_of model =
     map_of [(''efficientnet_b0'', EfficientNet_B0), (''alexnet'', AlexNet),
             (''vgg11'', VGG11), (''vgg11_bn'', VGG11_BN)] model"

subsection \<open>A small concrete session\<close>

text \<open>
  A model with one real parameter \<open>p\<close>: the logit of an input \<open>x\<close> is \<open>p * x\<close>, the
  loss is the logit minus the label, the predicted class is 1 for a positive logit, and
  every optimizer step adds 1 to \<open>p\<close>. Two training batches and two test batches.
  \<open>demo_str_float\<close> renders a number with one decimal digit.
\<close>

definition demo_str_float :: "real \<Rightarrow> string" where
  "demo_str_float r =
     (if r < 0 then ''-'' else []) @ str_nat (nat \<lfloor>\<bar>r\<bar>\<rfloor>) @ ''.''
       @ str_nat (nat \<lfloor>\<bar>r\<bar> * 10\<rfloor> mod 10)"

definition demo_env :: "(real, nat, real, nat, real, nat) env" where
  "demo_env =
     \<lparr>forward = (\<lambda>training p x. p * x),
      softmax_argmax = (\<lambda>l. if 0 < l then 1 else 0),
      criterion = (\<lambda>l y. l - real y),
      acc_fn = (\<lambda>c y. if c = y then 1 else 0),
      optimizer_update = (\<lambda>n p x y. (Suc n, p + 1)),
      train_loader = [(1, 1), (2, 0)],
      test_loader = [(1, 1), (3, 1)],
      PATH = ''out'',
      str_float = demo_str_float\<rparr>"

definition empty_env :: "(real, nat, real, nat, real, nat) env" where
  "empty_env = demo_env\<lparr>train_loader := [], test_loader := []\<rparr>"

definition demo_state :: "nat \<Rightarrow> real \<Rightarrow> int \<Rightarrow> (real, nat) session" where
  "demo_state e p k =
     \<lparr>model_state = p, model_training = True, optim_state = 0, PATIENCE = Some 2,
      patience_curr = k, patience_ended = False, epoch = e, saved = [], history = None\<rparr>"

text \<open>
  A wrapper on which nothing has been set up yet, the same wrapper after
  \<^verbatim>\<open>prepare_dataloaders\<close> on ten classes and \<^verbatim>\<open>load_model\<close> of vgg11, and a library in
  which every pretrained model can be built and the only checkpoint file is
  \<^verbatim>\<open>best.pth\<close>, saved from a vgg11 with ten classes. A state dict is described by the
  architecture and the number of classes it was saved from.
\<close>

definition new_wrapper :: wrapper where
  "new_wrapper =
     \<lparr>LR = 1 / 1000, WEIGHT_DECAY = 1 / 10000, num_classes_attr = None, model_attr = None,
      criterion_attr = None, acc_fn_attr = None, optimizer_attr = None\<rparr>"

definition demo_wrapper :: wrapper where
  "demo_wrapper =
     new_wrapper\<lparr>num_classes_attr := Some 10, model_attr := Some (finish_model VGG11 10)\<rparr>"

definition demo_torch :: "(architecture \<times> nat) torch" where
  "demo_torch =
     \<lparr>pretrained = (\<lambda>a. Inr ()),
      torch_load = (\<lambda>path. if path = ''best.pth'' then Inr (VGG11, 10)
                            else Inl (FileNotFoundError path)),
      load_state_dict = (\<lambda>net sd. if sd = (net_arch net, classifier_out net) then Inr ()
                                   else Inl (RuntimeError ''Error(s) in loading state_dict'')),
      repr_float = demo_str_float\<rparr>"

text \<open>
  The concrete session with a loss that is never negative, as the losses are that
  \<^verbatim>\<open>init_optim\<close> assigns.
\<close>

definition nonneg_env :: "(real, nat, real, nat, real, nat) env" where
  "nonneg_env = demo_env\<lparr>criterion := (\<lambda>l y. \<bar>l - real y\<bar>)\<rparr>"

definition demo_history :: dataframe where
  "demo_history =
     \<lparr>columns = [''epoch'', ''train_loss'', ''train_acc'', ''test_loss'', ''test_acc''],
      rows = [[Int_cell 0, Float_cell (7 / 2), Float_cell (1 / 2), Float_cell 7, Float_cell 1],
              [Int_cell 2, Float_cell (19 / 2), Float_cell (1 / 2), Float_cell 15, Float_cell 1],
              [Int_cell 4, Float_cell (31 / 2), Float_cell (1 / 2), Float_cell 23, Float_cell 1]]\<rparr>"

definition demo_final :: "(real, nat) session" where
  "demo_final =
     \<lparr>model_state = 14, model_training = True, optim_state = 12, PATIENCE = None,
      patience_curr = 0, patience_ended = False, epoch = 5, saved = [],
      history = Some demo_history\<rparr>"

definition stopped_history :: dataframe where
  "stopped_history =
     \<lparr>columns = [''epoch'', ''train_loss'', ''train_acc'', ''test_loss'', ''test_acc''],
      rows = [[Int_cell 0, Float_cell (7 / 2), Float_cell (1 / 2), Float_cell 7, Float_cell 1],
              [Int_cell 1, Float_cell (13 / 2), Float_cell (1 / 2), Float_cell 11, Float_cell 1],
              [Int_cell 2, Float_cell (19 / 2), Float_cell (1 / 2), Float_cell 15, Float_cell 1]]\<rparr>"

definition stopped_final :: "(real, nat) session" where
  "stopped_final =
     \<lparr>model_state = 8, model_training = False, optim_state = 6, PATIENCE = Some 2,
      patience_curr = 2, patience_ended = True, epoch = 3, saved = [],
      history = Some stopped_history\<rparr>"

section \<open>Properties\<close>

subsection \<open>Frame lemmas\<close>

lemmas demo_defs = demo_env_def demo_state_def test_step_def train_step_def patience_policy_def
  checkpoint_name_def demo_str_float_def digit_char_def Let_def

lemma test_step_Inr:
  assumes "test_step c prev s = Inr ((test_loss, test_acc), s')"
  shows "s' = patience_policy c prev test_loss test_acc (s\<lparr>model_training := False\<rparr>)"
  using assms by (auto simp: test_step_def Let_def split: prod.splits if_splits)

lemma policy_frame:
  "model_state (patience_policy c prev test_loss test_acc s) = model_state s"
  "optim_state (patience_policy c prev test_loss test_acc s) = optim_state s"
  "epoch (patience_policy c prev test_loss test_acc s) = epoch s"
  "PATIENCE (patience_policy c prev test_loss test_acc s) = PATIENCE s"
  "model_training (patience_policy c prev test_loss test_acc s) = model_training s"
  by (simp_all add: patience_policy_def Let_def split: option.splits)

lemma train_batches_frame:
  "train_batches c bs (l, a, s) = (l', a', s') \<Longrightarrow>
     patience_ended s' = patience_ended s \<and> patience_curr s' = patience_curr s \<and>
     PATIENCE s' = PATIENCE s \<and> epoch s' = epoch s \<and> saved s' = saved s \<and>
     model_training s' = model_training s \<and> history s' = history s"
proof (induction bs arbitrary: l a s)
  case Nil
  then show ?case by simp
next
  case (Cons b bs)
  obtain X y where b: "b = (X, y)" by (cases b)
  obtain o' p' where u: "optimizer_update c (optim_state s) (model_state s) X y = (o', p')"
    by (cases "optimizer_update c (optim_state s) (model_state s) X y")
  from Cons.prems have
    "train_batches c bs
       (l + criterion c (forward c (model_training s) (model_state s) X) y,
        a + acc_fn c (softmax_argmax c (forward c (model_training s) (model_state s) X)) y,
        s\<lparr>model_state := p', optim_state := o'\<rparr>) = (l', a', s')"
    by (simp add: b u Let_def)
  from Cons.IH[OF this] show ?case by simp
qed

lemma train_step_frame:
  assumes "train_step c s = Inr (r, s')"
  shows "patience_ended s' = patience_ended s" "patience_curr s' = patience_curr s"
    "PATIENCE s' = PATIENCE s" "epoch s' = epoch s" "saved s' = saved s"
  using assms train_batches_frame[of c "train_loader c" 0 0 "s\<lparr>model_training := True\<rparr>"]
  by (auto simp: train_step_def Let_def split: prod.splits if_splits)

subsection \<open>The running sums of the two loops\<close>

lemma train_batches_sums:
  "train_batches c bs (l, a, s) = (l', a', s') \<Longrightarrow> model_training s \<Longrightarrow>
     l' = foldl (+) l (map fst (train_values c (optim_state s) (model_state s) bs)) \<and>
     a' = foldl (+) a (map snd (train_values c (optim_state s) (model_state s) bs))"
proof (induction bs arbitrary: l a s)
  case Nil
  then show ?case by simp
next
  case (Cons b bs)
  obtain X y where b: "b = (X, y)" by (cases b)
  obtain o' p' where u: "optimizer_update c (optim_state s) (model_state s) X y = (o', p')"
    by (cases "optimizer_update c (optim_state s) (model_state s) X y")
  let ?s = "s\<lparr>model_state := p', optim_state := o'\<rparr>"
  from Cons.prems(1) have
    "train_batches c bs
       (l + criterion c (forward c True (model_state s) X) y,
        a + acc_fn c (softmax_argmax c (forward c True (model_state s) X)) y, ?s) = (l', a', s')"
    using Cons.prems(2) by (simp add: b u Let_def)
  from Cons.IH[OF this] Cons.prems(2) show ?case
    by (simp add: b u batch_metrics_def)
qed

lemma test_batches_sums:
  "\<not> model_training s \<Longrightarrow> test_batches c s bs (l, a) =
     (foldl (+) l (map fst (test_values c (model_state s) bs)),
      foldl (+) a (map snd (test_values c (model_state s) bs)))"
  by (induction bs arbitrary: l a) (auto simp: Let_def test_values_def batch_metrics_def)

lemma length_train_values: "length (train_values c opt p bs) = length bs"
  by (induction bs arbitrary: opt p) auto

lemma foldl_add_nonneg:
  fixes a :: real
  shows "0 \<le> a \<Longrightarrow> (\<And>x. x \<in> set xs \<Longrightarrow> 0 \<le> x) \<Longrightarrow> 0 \<le> foldl (+) a xs"
  by (induction xs arbitrary: a) simp_all

lemma test_step_loss:
  assumes "test_step c prev s = Inr ((test_loss, test_acc), s')"
  shows "test_loss =
           foldl (+) 0 (map fst (test_values c (model_state s) (test_loader c)))
             / real (length (test_loader c))"
proof -
  have m: "\<not> model_training (s\<lparr>model_training := False\<rparr>)" by simp
  show ?thesis
    using assms test_batches_sums[OF m, of c "test_loader c" 0 0]
    by (auto simp: test_step_def Let_def split: if_splits)
qed

subsection \<open>C1: the evaluation at epoch 0\<close>

text \<open>
  C1. The criterion of the wrapper is the one \<^verbatim>\<open>init_optim\<close> assigns, CrossEntropyLoss
  or BCEWithLogitsLoss, and neither is negative on class labels; so the mean test loss
  is not negative. For every such criterion and every evaluation at epoch 0, where the
  previous loss is the sentinel 0, the evaluation leaves the patience counter, the stop
  flag and the saved checkpoints as they were, whatever the test loss: the increment is
  guarded by \<^verbatim>\<open>self.epoch != 0\<close>, and a loss that is not negative is never below the
  sentinel.
\<close>

theorem epoch0_no_increment_no_checkpoint:
  assumes "\<And>l y. 0 \<le> criterion c l y"
    and "epoch s = 0"
    and "test_step c 0 s = Inr ((test_loss, test_acc), s')"
  shows "patience_curr s' = patience_curr s \<and> patience_ended s' = patience_ended s \<and>
         saved s' = saved s"
proof -
  have "0 \<le> foldl (+) 0 (map fst (test_values c (model_state s) (test_loader c)))"
    by (rule foldl_add_nonneg) (auto simp: test_values_def batch_metrics_def assms(1))
  then have nonneg: "0 \<le> test_loss"
    by (simp add: test_step_loss[OF assms(3)])
  from test_step_Inr[OF assms(3)] assms(2) nonneg show ?thesis
    by (auto simp: patience_policy_def split: option.splits)
qed

text \<open>
  The theorem at epoch 0 of the concrete session with the loss that is never negative,
  test loss 3 and counter 1: nothing changes but the mode of the model.
\<close>

theorem epoch0_no_increment_no_checkpoint_witness:
  "epoch (demo_state 0 2 1) = 0 \<and>
   test_step nonneg_env 0 (demo_state 0 2 1) =
     Inr ((3, 1), (demo_state 0 2 1)\<lparr>model_training := False\<rparr>) \<and>
   patience_curr ((demo_state 0 2 1)\<lparr>model_training := False\<rparr>) = patience_curr (demo_state 0 2 1) \<and>
   patience_ended ((demo_state 0 2 1)\<lparr>model_training := False\<rparr>) = patience_ended (demo_state 0 2 1) \<and>
   saved ((demo_state 0 2 1)\<lparr>model_training := False\<rparr>) = saved (demo_state 0 2 1)"
proof -
  have h1: "0 \<le> criterion nonneg_env l y" for l y
    by (simp add: nonneg_env_def demo_env_def)
  have h2: "epoch (demo_state 0 2 1) = 0" by (simp add: demo_state_def)
  have h3: "test_step nonneg_env 0 (demo_state 0 2 1) =
     Inr ((3, 1), (demo_state 0 2 1)\<lparr>model_training := False\<rparr>)"
    by (simp add: nonneg_env_def demo_defs)
  from epoch0_no_increment_no_checkpoint[OF h1 h2 h3] h2 h3 show ?thesis by simp
qed

subsection \<open>C2: when the patience counter is incremented\<close>

text \<open>
  C2, as the code has it. For an evaluation on an epoch that is not the first, with a
  patience limit configured, the patience counter goes up by 1 whenever the new test loss
  is strictly greater than the previous one.
\<close>

theorem increment_on_strict_increase:
  assumes "epoch s \<noteq> 0" and "PATIENCE s = Some limit"
    and "test_step c prev s = Inr ((test_loss, test_acc), s')" and "prev < test_loss"
  shows "patience_curr s' = patience_curr s + 1"
  using assms(1,2,4) test_step_Inr[OF assms(3)]
  by (auto simp: patience_policy_def Let_def)

text \<open>
The theorem at epoch 1, previous loss 2, new loss 3: the counter goes from 0 to 1.
\<close>

theorem increment_on_strict_increase_witness:
  "epoch (demo_state 1 2 0) \<noteq> 0 \<and> PATIENCE (demo_state 1 2 0) = Some 2 \<and>
   test_step demo_env 2 (demo_state 1 2 0) =
     Inr ((3, 1), (demo_state 1 2 0)\<lparr>model_training := False, patience_curr := 1\<rparr>) \<and>
   (2::real) < 3 \<and>
   patience_curr ((demo_state 1 2 0)\<lparr>model_training := False, patience_curr := 1\<rparr>) =
     patience_curr (demo_state 1 2 0) + 1"
proof -
  have h1: "epoch (demo_state 1 2 0) \<noteq> 0" by (simp add: demo_state_def)
  have h2: "PATIENCE (demo_state 1 2 0) = Some 2" by (simp add: demo_state_def)
  have h3: "test_step demo_env 2 (demo_state 1 2 0) =
     Inr ((3, 1), (demo_state 1 2 0)\<lparr>model_training := False, patience_curr := 1\<rparr>)"
    by (simp add: demo_defs)
  have h4: "(2::real) < 3" by simp
  from increment_on_strict_increase[OF h1 h2 h3 h4] h1 h2 h3 show ?thesis by simp
qed

text \<open>
  C2 as stated fails on a tie: at epoch 1, with previous loss 3 and new loss 3, the new
  loss is greater than or equal to the previous one and the counter is not incremented.
\<close>

theorem tie_increment_counterexample:
  "epoch (demo_state 1 2 0) \<noteq> 0 \<and> PATIENCE (demo_state 1 2 0) = Some 2 \<and>
   test_step demo_env 3 (demo_state 1 2 0) =
     Inr ((3, 1), (demo_state 1 2 0)\<lparr>model_training := False\<rparr>) \<and>
   (3::real) \<ge> 3 \<and>
   patience_curr ((demo_state 1 2 0)\<lparr>model_training := False\<rparr>) \<noteq> patience_curr (demo_state 1 2 0) + 1"
  by (simp add: demo_defs)

subsection \<open>C3: a tie changes nothing\<close>

text \<open>
  C3. When the new test loss equals the previous one, the evaluation leaves the patience
  counter, the stop flag and the saved checkpoints as they were. This holds on every
  epoch, so in particular on every epoch that is not the first.
\<close>

theorem tie_is_noop:
  assumes "test_step c prev s = Inr ((test_loss, test_acc), s')" and "test_loss = prev"
  shows "patience_curr s' = patience_curr s \<and> patience_ended s' = patience_ended s \<and>
         saved s' = saved s"
  using assms(2) test_step_Inr[OF assms(1)]
  by (auto simp: patience_policy_def split: option.splits)

text \<open>
The theorem at epoch 4, counter 1, previous loss 3, new loss 3.
\<close>

theorem tie_is_noop_witness:
  "test_step demo_env 3 (demo_state 4 2 1) =
     Inr ((3, 1), (demo_state 4 2 1)\<lparr>model_training := False\<rparr>) \<and>
   patience_curr ((demo_state 4 2 1)\<lparr>model_training := False\<rparr>) = patience_curr (demo_state 4 2 1) \<and>
   patience_ended ((demo_state 4 2 1)\<lparr>model_training := False\<rparr>) = patience_ended (demo_state 4 2 1) \<and>
   saved ((demo_state 4 2 1)\<lparr>model_training := False\<rparr>) = saved (demo_state 4 2 1)"
proof -
  have h: "test_step demo_env 3 (demo_state 4 2 1) =
     Inr ((3, 1), (demo_state 4 2 1)\<lparr>model_training := False\<rparr>)"
    by (simp add: demo_defs)
  from tie_is_noop[OF h refl] h show ?thesis by simp
qed

subsection \<open>C4: an improvement resets the counter and saves a checkpoint\<close>

text \<open>
  C4. With a patience limit configured, an evaluation whose test loss is strictly below
  the previous one sets the patience counter to 0 and saves the parameter state of the
  model in the output directory, under the name made of the epoch index, the mean test
  loss and the mean test accuracy, joined by underscores and followed by \<^verbatim>\<open>.pth\<close>.
\<close>

theorem improvement_resets_and_saves:
  assumes "PATIENCE s = Some limit"
    and "test_step c prev s = Inr ((test_loss, test_acc), s')" and "test_loss < prev"
  shows "patience_curr s' = 0 \<and>
         saved s' = saved s @
           [\<lparr>ckpt_dir = PATH c,
             ckpt_name = str_nat (epoch s) @ ''_'' @ str_float c test_loss @ ''_'' @ str_float c test_acc @ ''.pth'',
             ckpt_state = model_state s\<rparr>]"
  using assms(1,3) test_step_Inr[OF assms(2)]
  by (auto simp: patience_policy_def checkpoint_name_def)

text \<open>
The theorem at epoch 12, previous loss 5, new loss 3: the file is \<^verbatim>\<open>12_3.0_1.0.pth\<close>.
\<close>

theorem improvement_resets_and_saves_witness:
  "PATIENCE (demo_state 12 2 1) = Some 2 \<and>
   test_step demo_env 5 (demo_state 12 2 1) =
     Inr ((3, 1),
          (demo_state 12 2 1)
            \<lparr>model_training := False, patience_curr := 0,
             saved := [\<lparr>ckpt_dir = ''out'', ckpt_name = ''12_3.0_1.0.pth'', ckpt_state = 2\<rparr>]\<rparr>) \<and>
   (3::real) < 5 \<and>
   saved ((demo_state 12 2 1)
            \<lparr>model_training := False, patience_curr := 0,
             saved := [\<lparr>ckpt_dir = ''out'', ckpt_name = ''12_3.0_1.0.pth'', ckpt_state = 2\<rparr>]\<rparr>) =
     saved (demo_state 12 2 1) @
       [\<lparr>ckpt_dir = PATH demo_env,
         ckpt_name = str_nat 12 @ ''_'' @ str_float demo_env 3 @ ''_'' @ str_float demo_env 1 @ ''.pth'',
         ckpt_state = model_state (demo_state 12 2 1)\<rparr>]"
proof -
  have h1: "PATIENCE (demo_state 12 2 1) = Some 2" by (simp add: demo_state_def)
  have h2: "test_step demo_env 5 (demo_state 12 2 1) =
     Inr ((3, 1),
          (demo_state 12 2 1)
            \<lparr>model_training := False, patience_curr := 0,
             saved := [\<lparr>ckpt_dir = ''out'', ckpt_name = ''12_3.0_1.0.pth'', ckpt_state = 2\<rparr>]\<rparr>)"
    by (simp add: demo_defs)
  have h3: "(3::real) < 5" by simp
  from improvement_resets_and_saves[OF h1 h2 h3] h1 h2 show ?thesis
    by (simp add: demo_env_def demo_state_def demo_str_float_def digit_char_def)
qed

subsection \<open>C5: the stop takes effect at the next epoch\<close>

text \<open>
  C5. Take an epoch \<open>e\<close> that runs (the stop flag is not set), on which the evaluation is
  scheduled, and whose evaluation increments the patience counter to the limit (the
  epoch is not the first, the test loss is above the previous one, and the counter was
  one below the limit). Then the stop flag is set by that evaluation, the record of epoch
  \<open>e\<close> is appended, and the loop over \<open>e\<close> and any later epochs \<open>es\<close> returns right
  there: the session is the one the evaluation left, with only \<^verbatim>\<open>self.epoch\<close> moved to
  the next epoch when there is one, and the results hold no record after that of \<open>e\<close>.
  The collaborators are arbitrary, so no train step, evaluation or checkpoint write of a
  later epoch can have run.
\<close>

theorem stop_at_next_epoch:
  assumes "\<not> patience_ended s"
    and "train_step c (s\<lparr>epoch := e\<rparr>) = Inr ((train_loss, train_acc), s2)"
    and "TEST_EVERY \<noteq> 0" and "int e mod TEST_EVERY = 0"
    and "test_step c prev s2 = Inr ((test_loss, test_acc), s3)"
    and "PATIENCE s = Some limit" and "e \<noteq> 0" and "prev < test_loss"
    and "patience_curr s + 1 = limit"
  shows "patience_curr s3 = limit \<and> patience_ended s3 \<and>
         train_epochs c TEST_EVERY (e # es) (s, prev, results) =
           Inr (if es = [] then s3 else s3\<lparr>epoch := hd es\<rparr>,
                results @ [[Int_cell e, Float_cell train_loss, Float_cell train_acc,
                            Float_cell test_loss, Float_cell test_acc]])"
proof -
  have f2: "epoch s2 = e" "PATIENCE s2 = Some limit" "patience_curr s2 = patience_curr s"
    using train_step_frame[OF assms(2)] assms(6) by simp_all
  have s3: "s3 = patience_policy c prev test_loss test_acc (s2\<lparr>model_training := False\<rparr>)"
    by (rule test_step_Inr[OF assms(5)])
  have a: "patience_curr s3 = limit" and b: "patience_ended s3"
    using f2 assms(7,8,9) by (simp_all add: s3 patience_policy_def Let_def)
  have stop: "train_epochs c TEST_EVERY es (s3, test_loss, rs) =
      Inr (if es = [] then s3 else s3\<lparr>epoch := hd es\<rparr>, rs)" for rs
    using b by (cases es) (simp_all add: Let_def)
  have "train_epochs c TEST_EVERY (e # es) (s, prev, results) =
      train_epochs c TEST_EVERY es
        (s3, test_loss,
         results @ [[Int_cell e, Float_cell train_loss, Float_cell train_acc,
                     Float_cell test_loss, Float_cell test_acc]])"
    using assms(1,2,3,4,5) f2(1) by (simp add: Let_def)
  with stop a b show ?thesis by simp
qed

text \<open>
  The theorem at epoch 2 of the concrete session, with the counter at 1, the limit 2 and
  the epochs 3 and 4 still to come: the loop returns the record of epoch 2 alone, and the
  parameters are those left by epoch 2.
\<close>

theorem stop_at_next_epoch_witness:
  "train_epochs demo_env 1 [2, 3, 4] (demo_state 1 6 1, 11, []) =
     Inr ((demo_state 3 8 2)\<lparr>optim_state := 2, model_training := False, patience_ended := True\<rparr>,
          [[Int_cell 2, Float_cell (19 / 2), Float_cell (1 / 2), Float_cell 15, Float_cell 1]]) \<and>
   patience_curr ((demo_state 2 8 2)\<lparr>optim_state := 2, model_training := False, patience_ended := True\<rparr>) = 2"
proof -
  let ?s = "demo_state 1 6 1"
  let ?s2 = "(demo_state 2 8 1)\<lparr>optim_state := 2\<rparr>"
  let ?s3 = "(demo_state 2 8 2)\<lparr>optim_state := 2, model_training := False, patience_ended := True\<rparr>"
  have h1: "\<not> patience_ended ?s" by (simp add: demo_state_def)
  have h2: "train_step demo_env (?s\<lparr>epoch := 2\<rparr>) = Inr ((19 / 2, 1 / 2), ?s2)"
    by (simp add: demo_defs)
  have h3: "(1::int) \<noteq> 0" by simp
  have h4: "int 2 mod 1 = 0" by simp
  have h5: "test_step demo_env 11 ?s2 = Inr ((15, 1), ?s3)"
    by (simp add: demo_defs)
  have h6: "PATIENCE ?s = Some 2" by (simp add: demo_state_def)
  have h7: "(2::nat) \<noteq> 0" by simp
  have h8: "(11::real) < 15" by simp
  have h9: "patience_curr ?s + 1 = 2" by (simp add: demo_state_def)
  from stop_at_next_epoch[OF h1 h2 h3 h4 h5 h6 h7 h8 h9, of "[3, 4]" "[]"]
  show ?thesis by (simp add: demo_state_def)
qed

subsection \<open>C6: the history table\<close>

lemma last_test_loss_snoc:
  "last_test_loss (res @ [[a, b, c, Float_cell x, d]]) = x"
  by (simp add: last_test_loss_def)

text \<open>
  The first epoch of the loop has one of three outcomes, whatever the epochs after it:
  the loop stops there, it raises, or it goes on with the later epochs.
\<close>

lemma first_epoch:
  "(patience_ended s \<and>
      (\<forall>ys. train_epochs c te (x # ys) (s, prev, res) = Inr (s\<lparr>epoch := x\<rparr>, res))) \<or>
   (\<not> patience_ended s \<and>
      (\<exists>err. \<forall>ys. train_epochs c te (x # ys) (s, prev, res) = Inl err)) \<or>
   (\<not> patience_ended s \<and>
      (\<exists>s' prev' res'.
         (\<forall>ys. train_epochs c te (x # ys) (s, prev, res) = train_epochs c te ys (s', prev', res')) \<and>
         (prev = last_test_loss res \<longrightarrow> prev' = last_test_loss res')))"
proof (cases "patience_ended s")
  case True
  then show ?thesis by (simp add: Let_def)
next
  case False
  show ?thesis
  proof (cases "train_step c (s\<lparr>epoch := x\<rparr>)")
    case (Inl err)
    with False show ?thesis by (simp add: Let_def)
  next
    case (Inr r)
    obtain train_loss train_acc s2 where r: "r = ((train_loss, train_acc), s2)"
      by (metis surj_pair)
    note ts = Inr[unfolded r]
    show ?thesis
    proof (cases "te = 0")
      case True
      with False ts show ?thesis by (simp add: Let_def)
    next
      case nz: False
      show ?thesis
      proof (cases "int (epoch s2) mod te = 0")
        case ev: True
        show ?thesis
        proof (cases "test_step c prev s2")
          case (Inl err)
          with False ts nz ev show ?thesis by (simp add: Let_def)
        next
          case (Inr q)
          obtain test_loss test_acc s3 where q: "q = ((test_loss, test_acc), s3)"
            by (metis surj_pair)
          note tt = Inr[unfolded q]
          let ?res = "res @ [[Int_cell x, Float_cell train_loss, Float_cell train_acc,
                              Float_cell test_loss, Float_cell test_acc]]"
          have "\<forall>ys. train_epochs c te (x # ys) (s, prev, res) =
                  train_epochs c te ys (s3, test_loss, ?res)"
            using False ts nz ev tt by (simp add: Let_def)
          moreover have "test_loss = last_test_loss ?res" by (simp add: last_test_loss_snoc)
          ultimately show ?thesis using False by blast
        qed
      next
        case od: False
        have "\<forall>ys. train_epochs c te (x # ys) (s, prev, res) = train_epochs c te ys (s2, prev, res)"
          using False ts nz od by (simp add: Let_def)
        then show ?thesis using False by blast
      qed
    qed
  qed
qed

text \<open>
One more epoch at the end of the loop, in the three outcomes of the loop before it.
\<close>

lemma train_epochs_snoc_error:
  "train_epochs c te xs (s, prev, res) = Inl err \<Longrightarrow>
     train_epochs c te (xs @ [e]) (s, prev, res) = Inl err"
proof (induction xs arbitrary: s prev res)
  case Nil
  then show ?case by simp
next
  case (Cons x xs)
  from first_epoch[of s c te x prev res] Cons.prems Cons.IH show ?case
    by (elim disjE conjE exE) (simp_all del: train_epochs.simps)
qed

lemma train_epochs_snoc_stopped:
  "train_epochs c te xs (s, prev, res) = Inr (s1, res1) \<Longrightarrow> patience_ended s1 \<Longrightarrow>
     \<exists>s'. train_epochs c te (xs @ [e]) (s, prev, res) = Inr (s', res1) \<and> patience_ended s'"
proof (induction xs arbitrary: s prev res)
  case Nil
  then show ?case by (simp add: Let_def)
next
  case (Cons x xs)
  from first_epoch[of s c te x prev res] show ?case
  proof (elim disjE conjE exE)
    assume a: "patience_ended s"
      "\<forall>ys. train_epochs c te (x # ys) (s, prev, res) = Inr (s\<lparr>epoch := x\<rparr>, res)"
    from a(2) Cons.prems(1) have "res1 = res" by (simp del: train_epochs.simps)
    with a show ?thesis by (simp del: train_epochs.simps)
  next
    fix err assume "\<forall>ys. train_epochs c te (x # ys) (s, prev, res) = Inl err"
    with Cons.prems(1) show ?thesis by (simp del: train_epochs.simps)
  next
    fix s' prev' res'
    assume a: "\<forall>ys. train_epochs c te (x # ys) (s, prev, res) = train_epochs c te ys (s', prev', res')"
    with Cons.prems(1) have "train_epochs c te xs (s', prev', res') = Inr (s1, res1)"
      by (simp del: train_epochs.simps)
    from Cons.IH[OF this Cons.prems(2)] a show ?thesis by (simp del: train_epochs.simps)
  qed
qed

lemma train_epochs_snoc_running:
  "train_epochs c te xs (s, prev, res) = Inr (s1, res1) \<Longrightarrow> \<not> patience_ended s1 \<Longrightarrow>
   prev = last_test_loss res \<Longrightarrow>
     train_epochs c te (xs @ [e]) (s, prev, res) =
       train_epochs c te [e] (s1, last_test_loss res1, res1)"
proof (induction xs arbitrary: s prev res)
  case Nil
  then show ?case by simp
next
  case (Cons x xs)
  from first_epoch[of s c te x prev res] show ?case
  proof (elim disjE conjE exE)
    assume a: "patience_ended s"
      "\<forall>ys. train_epochs c te (x # ys) (s, prev, res) = Inr (s\<lparr>epoch := x\<rparr>, res)"
    from a(2) Cons.prems(1) have "s1 = s\<lparr>epoch := x\<rparr>" by (simp del: train_epochs.simps)
    with a(1) Cons.prems(2) show ?thesis by simp
  next
    fix err assume "\<forall>ys. train_epochs c te (x # ys) (s, prev, res) = Inl err"
    with Cons.prems(1) show ?thesis by (simp del: train_epochs.simps)
  next
    fix s' prev' res'
    assume a: "\<forall>ys. train_epochs c te (x # ys) (s, prev, res) = train_epochs c te ys (s', prev', res')"
      and b: "prev = last_test_loss res \<longrightarrow> prev' = last_test_loss res'"
    from a Cons.prems(1) have r: "train_epochs c te xs (s', prev', res') = Inr (s1, res1)"
      by (simp del: train_epochs.simps)
    from b Cons.prems(3) have p: "prev' = last_test_loss res'" by simp
    from Cons.IH[OF r Cons.prems(2) p] a show ?thesis by (simp del: train_epochs.simps)
  qed
qed

lemma single_epoch:
  assumes "train_epochs c te [e] (s1, prev, res1) = Inr (sn, resn)"
    and "\<not> patience_ended s1"
  shows "\<exists>train_loss train_acc s2.
           train_step c (s1\<lparr>epoch := e\<rparr>) = Inr ((train_loss, train_acc), s2) \<and>
           (if int e mod te = 0
            then \<exists>test_loss test_acc.
                   test_step c prev s2 = Inr ((test_loss, test_acc), sn) \<and>
                   resn = res1 @ [[Int_cell e, Float_cell train_loss, Float_cell train_acc,
                                   Float_cell test_loss, Float_cell test_acc]]
            else sn = s2 \<and> resn = res1)"
proof -
  from assms obtain train_loss train_acc s2 where
    ts: "train_step c (s1\<lparr>epoch := e\<rparr>) = Inr ((train_loss, train_acc), s2)"
    by (auto simp: Let_def split: sum.splits)
  have e2: "epoch s2 = e" using train_step_frame(4)[OF ts] by simp
  from assms ts have nz: "te \<noteq> 0" by (auto simp: Let_def split: if_splits)
  show ?thesis
  proof (cases "int e mod te = 0")
    case True
    with assms ts nz e2 obtain test_loss test_acc where
      "test_step c prev s2 = Inr ((test_loss, test_acc), sn)"
      "resn = res1 @ [[Int_cell e, Float_cell train_loss, Float_cell train_acc,
                       Float_cell test_loss, Float_cell test_acc]]"
      by (auto simp: Let_def split: sum.splits)
    with ts True show ?thesis by simp
  next
    case False
    with assms ts nz e2 have "sn = s2 \<and> resn = res1" by (auto simp: Let_def)
    with ts False show ?thesis by simp
  qed
qed

lemma before_epoch_history:
  "before_epoch c te p s n = Inr (sn, resn) \<Longrightarrow>
     \<exists>j\<le>n. (\<forall>i<j. epoch_runs c te p s i) \<and>
            (j < n \<longrightarrow> epoch_stopped c te p s j) \<and>
            (\<not> patience_ended sn \<longrightarrow> j = n) \<and>
            resn = map (epoch_record c te p s) (filter (\<lambda>e. int e mod te = 0) [0..<j]) \<and>
            map hd resn = map Int_cell (filter (\<lambda>e. int e mod te = 0) [0..<j]) \<and>
            (\<forall>r \<in> set resn. length r = 5)"
proof (induction n arbitrary: sn resn)
  case 0
  then show ?case by (simp add: before_epoch_def)
next
  case (Suc n)
  let ?s0 = "s\<lparr>PATIENCE := p, patience_curr := 0, patience_ended := False\<rparr>"
  let ?P = "\<lambda>e. int e mod te = 0"
  have full: "train_epochs c te ([0..<n] @ [n]) (?s0, 0, []) = Inr (sn, resn)"
    using Suc.prems by (simp add: before_epoch_def)
  have inv: "(0::real) = last_test_loss []" by (simp add: last_test_loss_def)
  show ?case
  proof (cases "before_epoch c te p s n")
    case (Inl err)
    then have "train_epochs c te [0..<n] (?s0, 0, []) = Inl err" by (simp add: before_epoch_def)
    from train_epochs_snoc_error[OF this, of n] full show ?thesis by simp
  next
    case (Inr r)
    obtain s1 res1 where r: "r = (s1, res1)" by (cases r)
    note b = Inr[unfolded r]
    then have run: "train_epochs c te [0..<n] (?s0, 0, []) = Inr (s1, res1)"
      by (simp add: before_epoch_def)
    from Suc.IH[OF b] obtain j where
      j: "j \<le> n" "\<forall>i<j. epoch_runs c te p s i" "j < n \<longrightarrow> epoch_stopped c te p s j"
         "\<not> patience_ended s1 \<longrightarrow> j = n"
         "res1 = map (epoch_record c te p s) (filter ?P [0..<j])"
         "map hd res1 = map Int_cell (filter ?P [0..<j])"
         "\<forall>r \<in> set res1. length r = 5"
      by (elim exE conjE) (rule that)
    show ?thesis
    proof (cases "patience_ended s1")
      case True
      from train_epochs_snoc_stopped[OF run True, of n] full
      have res: "resn = res1" and en: "patience_ended sn" by auto
      have st: "j < Suc n \<longrightarrow> epoch_stopped c te p s j"
      proof
        assume "j < Suc n"
        show "epoch_stopped c te p s j"
        proof (cases "j < n")
          case True
          with j(3) show ?thesis by simp
        next
          case False
          with \<open>j < Suc n\<close> have "j = n" by simp
          with b \<open>patience_ended s1\<close> show ?thesis by (simp add: epoch_stopped_def)
        qed
      qed
      have g1: "j \<le> Suc n" using j(1) by simp
      have g4: "\<not> patience_ended sn \<longrightarrow> j = Suc n" using en by simp
      show ?thesis
        apply (rule exI[of _ j])
        using g1 j(2) st g4 j(5,6,7)[folded res] by (intro conjI)
    next
      case False
      with j(4) have jn: "j = n" by simp
      from train_epochs_snoc_running[OF run False inv, of n] full
      have last: "train_epochs c te [n] (s1, last_test_loss res1, res1) = Inr (sn, resn)" by simp
      from single_epoch[OF last False] obtain train_loss train_acc s2 where
        ts: "train_step c (s1\<lparr>epoch := n\<rparr>) = Inr ((train_loss, train_acc), s2)"
        and rest: "if int n mod te = 0
            then \<exists>test_loss test_acc.
                   test_step c (last_test_loss res1) s2 = Inr ((test_loss, test_acc), sn) \<and>
                   resn = res1 @ [[Int_cell n, Float_cell train_loss, Float_cell train_acc,
                                   Float_cell test_loss, Float_cell test_acc]]
            else sn = s2 \<and> resn = res1"
        by blast
      have runs: "\<forall>i<Suc n. epoch_runs c te p s i"
      proof (intro allI impI)
        fix i assume "i < Suc n"
        show "epoch_runs c te p s i"
        proof (cases "i < n")
          case True
          with j(2) jn show ?thesis by simp
        next
          case nl: False
          with \<open>i < Suc n\<close> have "i = n" by simp
          with b False show ?thesis by (simp add: epoch_runs_def)
        qed
      qed
      have g3: "Suc n < Suc n \<longrightarrow> epoch_stopped c te p s (Suc n)" by simp
      have g4: "\<not> patience_ended sn \<longrightarrow> Suc n = Suc n" by simp
      have rec: "resn = map (epoch_record c te p s) (filter ?P [0..<Suc n]) \<and>
                 map hd resn = map Int_cell (filter ?P [0..<Suc n]) \<and>
                 (\<forall>r \<in> set resn. length r = 5)"
      proof (cases "int n mod te = 0")
        case True
        with rest obtain test_loss test_acc where
          tt: "test_step c (last_test_loss res1) s2 = Inr ((test_loss, test_acc), sn)"
          and rn: "resn = res1 @ [[Int_cell n, Float_cell train_loss, Float_cell train_acc,
                                   Float_cell test_loss, Float_cell test_acc]]"
          by auto
        have er: "epoch_record c te p s n =
                    [Int_cell n, Float_cell train_loss, Float_cell train_acc,
                     Float_cell test_loss, Float_cell test_acc]"
          by (simp add: epoch_record_def b ts tt)
        from True j(5,6,7) jn show ?thesis by (simp add: rn er)
      next
        case od: False
        with rest have "resn = res1" by simp
        with od j(5,6,7) jn show ?thesis by simp
      qed
      have g1: "Suc n \<le> Suc n" by simp
      note r1 = rec[THEN conjunct1] and r2 = rec[THEN conjunct2, THEN conjunct1]
        and r3 = rec[THEN conjunct2, THEN conjunct2]
      show ?thesis
        apply (rule exI[of _ "Suc n"])
        using g1 runs g3 g4 r1 r2 r3 by (intro conjI)
    qed
  qed
qed

text \<open>
  C6. The table returned by \<^verbatim>\<open>train\<close> has the five columns epoch, train_loss,
  train_acc, test_loss, test_acc in this order. Its rows are the records of the epochs
  that ran and are multiples of the cadence, one each, in order, and nothing else. The
  epochs that ran are those below \<open>j\<close>: every epoch below \<open>j\<close> was reached with the
  stop flag unset, and \<open>j\<close> is the number of epochs asked for or the epoch at which the
  loop found the flag set. Every row has five cells, in the order of the columns: the
  epoch, then the loss and the accuracy of that epoch's train step, then the loss and
  the accuracy of its test step.
\<close>

theorem history_rows:
  assumes "train c EPOCHS TEST_EVERY patience s = Inr (h, s')"
  shows "columns h = [''epoch'', ''train_loss'', ''train_acc'', ''test_loss'', ''test_acc''] \<and>
         (\<exists>j \<le> nat EPOCHS.
            (\<forall>i<j. epoch_runs c TEST_EVERY patience s i) \<and>
            (j < nat EPOCHS \<longrightarrow> epoch_stopped c TEST_EVERY patience s j) \<and>
            rows h = map (epoch_record c TEST_EVERY patience s)
                       (filter (\<lambda>e. int e mod TEST_EVERY = 0) [0..<j]) \<and>
            map hd (rows h) = map Int_cell (filter (\<lambda>e. int e mod TEST_EVERY = 0) [0..<j]) \<and>
            (\<forall>r \<in> set (rows h). length r = 5))"
proof -
  from assms obtain s1 where
    run: "before_epoch c TEST_EVERY patience s (nat EPOCHS) = Inr (s1, rows h)"
    and h: "h = \<lparr>columns = history_columns, rows = rows h\<rparr>"
    by (auto simp: train_def before_epoch_def Let_def split: sum.splits)
  have cols: "columns h = [''epoch'', ''train_loss'', ''train_acc'', ''test_loss'', ''test_acc'']"
    by (subst h) (simp add: history_columns_def)
  from before_epoch_history[OF run] obtain j where
    j: "j \<le> nat EPOCHS" "\<forall>i<j. epoch_runs c TEST_EVERY patience s i"
       "j < nat EPOCHS \<longrightarrow> epoch_stopped c TEST_EVERY patience s j"
       "\<not> patience_ended s1 \<longrightarrow> j = nat EPOCHS"
       "rows h = map (epoch_record c TEST_EVERY patience s)
                   (filter (\<lambda>e. int e mod TEST_EVERY = 0) [0..<j])"
       "map hd (rows h) = map Int_cell (filter (\<lambda>e. int e mod TEST_EVERY = 0) [0..<j])"
       "\<forall>r \<in> set (rows h). length r = 5"
    by (elim exE conjE) (rule that)
  have "\<exists>j \<le> nat EPOCHS.
            (\<forall>i<j. epoch_runs c TEST_EVERY patience s i) \<and>
            (j < nat EPOCHS \<longrightarrow> epoch_stopped c TEST_EVERY patience s j) \<and>
            rows h = map (epoch_record c TEST_EVERY patience s)
                       (filter (\<lambda>e. int e mod TEST_EVERY = 0) [0..<j]) \<and>
            map hd (rows h) = map Int_cell (filter (\<lambda>e. int e mod TEST_EVERY = 0) [0..<j]) \<and>
            (\<forall>r \<in> set (rows h). length r = 5)"
    apply (rule exI[of _ j])
    using j(1,2,3,5,6,7) by (intro conjI)
  with cols show ?thesis by (intro conjI)
qed

text \<open>
  The theorem for 6 epochs with cadence 2 and no patience limit: the rows are those of
  epochs 0, 2 and 4, and the history has length 3. And for 5 epochs with cadence 1 and a
  patience limit of 2, where the losses rise: epoch 2 runs, epoch 3 is stopped, and the
  rows are the records of epochs 0, 1 and 2.
\<close>

theorem history_rows_witness:
  "train demo_env 6 2 None (demo_state 0 2 0) = Inr (demo_history, demo_final) \<and>
   map hd (rows demo_history) = [Int_cell 0, Int_cell 2, Int_cell 4] \<and>
   length (rows demo_history) = 3 \<and>
   train demo_env 5 1 (Some 2) (demo_state 0 2 0) = Inr (stopped_history, stopped_final) \<and>
   epoch_runs demo_env 1 (Some 2) (demo_state 0 2 0) 2 \<and>
   epoch_stopped demo_env 1 (Some 2) (demo_state 0 2 0) 3 \<and>
   rows stopped_history = map (epoch_record demo_env 1 (Some 2) (demo_state 0 2 0)) [0, 1, 2]"
proof -
  have u: "[0..<6] = [0, 1, 2, 3, 4, 5::nat]" "[0..<5] = [0, 1, 2, 3, 4::nat]"
    "[0..<3] = [0, 1, 2::nat]" "[0..<2] = [0, 1::nat]"
    by code_simp+
  have h1: "train demo_env 6 2 None (demo_state 0 2 0) = Inr (demo_history, demo_final)"
    by (simp add: train_def u demo_defs demo_history_def demo_final_def history_columns_def)
  have h2: "train demo_env 5 1 (Some 2) (demo_state 0 2 0) = Inr (stopped_history, stopped_final)"
    by (simp add: train_def u demo_defs stopped_history_def stopped_final_def history_columns_def)
  have b0: "before_epoch demo_env 1 (Some 2) (demo_state 0 2 0) 0 = Inr (demo_state 0 2 0, [])"
    by (simp add: before_epoch_def demo_state_def)
  have b1: "before_epoch demo_env 1 (Some 2) (demo_state 0 2 0) 1 =
      Inr ((demo_state 0 4 0)\<lparr>optim_state := 2, model_training := False\<rparr>,
           [[Int_cell 0, Float_cell (7 / 2), Float_cell (1 / 2), Float_cell 7, Float_cell 1]])"
    by (simp add: before_epoch_def demo_defs)
  have b2: "before_epoch demo_env 1 (Some 2) (demo_state 0 2 0) 2 =
      Inr ((demo_state 1 6 1)\<lparr>optim_state := 4, model_training := False\<rparr>,
           [[Int_cell 0, Float_cell (7 / 2), Float_cell (1 / 2), Float_cell 7, Float_cell 1],
            [Int_cell 1, Float_cell (13 / 2), Float_cell (1 / 2), Float_cell 11, Float_cell 1]])"
    by (simp add: before_epoch_def u demo_defs)
  have b3: "before_epoch demo_env 1 (Some 2) (demo_state 0 2 0) 3 =
      Inr ((demo_state 2 8 2)\<lparr>optim_state := 6, model_training := False, patience_ended := True\<rparr>,
           rows stopped_history)"
    by (simp add: before_epoch_def u demo_defs stopped_history_def)
  have r: "epoch_runs demo_env 1 (Some 2) (demo_state 0 2 0) 2"
    unfolding epoch_runs_def b2 by (simp add: demo_state_def)
  have s: "epoch_stopped demo_env 1 (Some 2) (demo_state 0 2 0) 3"
    unfolding epoch_stopped_def b3 by (simp add: demo_state_def)
  have e: "rows stopped_history = map (epoch_record demo_env 1 (Some 2) (demo_state 0 2 0)) [0, 1, 2]"
    unfolding list.map epoch_record_def b0 b1 b2
    by (simp add: last_test_loss_def stopped_history_def demo_defs)
  from history_rows[OF h1] history_rows[OF h2] h1 h2 r s e show ?thesis
    by (simp add: demo_history_def)
qed

subsection \<open>C7: the returned loss and accuracy are means over the batches\<close>

text \<open>
  C7. When the train loader is not empty, the train step returns the per-batch losses and
  the per-batch accuracies of one pass, each summed in iterator order and divided by the
  number of batches; when the test loader is not empty, so does the test step. The mean
  is over batches: the size of a batch plays no part.
\<close>

theorem step_means:
  "(train_loader c \<noteq> [] \<longrightarrow>
      (\<exists>s'. train_step c s =
         Inr ((mean_in_order (map fst (train_values c (optim_state s) (model_state s) (train_loader c))),
               mean_in_order (map snd (train_values c (optim_state s) (model_state s) (train_loader c)))),
              s'))) \<and>
   (test_loader c \<noteq> [] \<longrightarrow>
      (\<exists>s'. test_step c prev s =
         Inr ((mean_in_order (map fst (test_values c (model_state s) (test_loader c))),
               mean_in_order (map snd (test_values c (model_state s) (test_loader c)))),
              s')))"
proof (intro conjI impI)
  assume ne: "train_loader c \<noteq> []"
  obtain l a s' where r: "train_batches c (train_loader c) (0, 0, s\<lparr>model_training := True\<rparr>) = (l, a, s')"
    by (metis prod_cases3)
  from train_batches_sums[OF r] ne show "\<exists>s'. train_step c s =
         Inr ((mean_in_order (map fst (train_values c (optim_state s) (model_state s) (train_loader c))),
               mean_in_order (map snd (train_values c (optim_state s) (model_state s) (train_loader c)))),
              s')"
    by (simp add: train_step_def r mean_in_order_def length_train_values)
next
  assume ne: "test_loader c \<noteq> []"
  then show "\<exists>s'. test_step c prev s =
         Inr ((mean_in_order (map fst (test_values c (model_state s) (test_loader c))),
               mean_in_order (map snd (test_values c (model_state s) (test_loader c)))),
              s')"
    by (simp add: test_step_def test_batches_sums mean_in_order_def test_values_def Let_def)
qed

text \<open>
  The theorem on the concrete session: the training losses 1 and 6 give 7/2, the test
  losses 1 and 5 give 3.
\<close>

theorem step_means_witness:
  "train_loader demo_env \<noteq> [] \<and> test_loader demo_env \<noteq> [] \<and>
   (\<exists>s'. train_step demo_env (demo_state 0 2 0) = Inr ((7 / 2, 1 / 2), s')) \<and>
   (\<exists>s'. test_step demo_env 0 (demo_state 0 2 0) = Inr ((3, 1), s'))"
proof -
  have d: "train_loader demo_env \<noteq> []" "test_loader demo_env \<noteq> []"
    by (simp_all add: demo_env_def)
  have v1: "train_values demo_env (optim_state (demo_state 0 2 0)) (model_state (demo_state 0 2 0))
              (train_loader demo_env) = [(1, 1), (6, 0)]"
    by (simp add: demo_env_def demo_state_def batch_metrics_def)
  have v2: "test_values demo_env (model_state (demo_state 0 2 0)) (test_loader demo_env) = [(1, 1), (5, 1)]"
    by (simp add: demo_env_def demo_state_def batch_metrics_def test_values_def)
  from step_means[of demo_env "demo_state 0 2 0" 0] d show ?thesis
    by (simp add: v1 v2 mean_in_order_def)
qed

subsection \<open>C8: the test step leaves the parameters alone\<close>

text \<open>
  C8. The parameter state of the model and the state of the optimizer after a test step
  are those before it. The test step reads the parameters in its forward passes, and
  applies no optimizer update; it changes the mode of the model, the patience state and
  the saved checkpoints only.
\<close>

theorem test_step_keeps_parameters:
  assumes "test_step c prev s = Inr ((test_loss, test_acc), s')"
  shows "model_state s' = model_state s \<and> optim_state s' = optim_state s"
  using test_step_Inr[OF assms] by (simp add: policy_frame)

text \<open>
The theorem on a test step that saves a checkpoint: the parameter is still 2.
\<close>

theorem test_step_keeps_parameters_witness:
  "test_step demo_env 5 (demo_state 3 2 1) =
     Inr ((3, 1),
          (demo_state 3 2 1)
            \<lparr>model_training := False, patience_curr := 0,
             saved := [\<lparr>ckpt_dir = ''out'', ckpt_name = ''3_3.0_1.0.pth'', ckpt_state = 2\<rparr>]\<rparr>) \<and>
   model_state ((demo_state 3 2 1)
            \<lparr>model_training := False, patience_curr := 0,
             saved := [\<lparr>ckpt_dir = ''out'', ckpt_name = ''3_3.0_1.0.pth'', ckpt_state = 2\<rparr>]\<rparr>) =
     model_state (demo_state 3 2 1)"
proof -
  have h: "test_step demo_env 5 (demo_state 3 2 1) =
     Inr ((3, 1),
          (demo_state 3 2 1)
            \<lparr>model_training := False, patience_curr := 0,
             saved := [\<lparr>ckpt_dir = ''out'', ckpt_name = ''3_3.0_1.0.pth'', ckpt_state = 2\<rparr>]\<rparr>)"
    by (simp add: demo_defs)
  from test_step_keeps_parameters[OF h] h show ?thesis by simp
qed

subsection \<open>C9: unsupported selectors, and what else the setup raises\<close>

text \<open>
  C9, as the code has it. A model selector outside the four supported ones makes
  \<^verbatim>\<open>load_model\<close> raise a RuntimeError with a fixed message. An optimizer selector
  outside SGD and Adam makes \<^verbatim>\<open>init_optim\<close> raise an error, which is a RuntimeError
  with a fixed message once \<^verbatim>\<open>prepare_dataloaders\<close> has set the number of classes (and
  an AttributeError before). The messages name the parameter (\<^verbatim>\<open>model\<close>,
  \<^verbatim>\<open>optimizer\<close>), whatever the value was. A supported selector is not rejected, and the
  setup then raises only what the library raises: \<^verbatim>\<open>load_model\<close> returns without error
  when the pretrained model can be built and the checkpoint, if one is given, can be read
  and fits; \<^verbatim>\<open>init_optim\<close> returns without error when the number of classes and the
  model are set and neither the learning rate nor the weight decay is negative.
\<close>

theorem selector_errors:
  "(model \<notin> set supported_models \<longrightarrow>
      fst (load_model t w n model checkpoint) =
        Inl (RuntimeError ''Incorrect `model` parameter. Check type hint.'')) \<and>
   (optimizer \<notin> set supported_optimizers \<longrightarrow>
      (\<exists>err. fst (init_optim t w optimizer) = Inl err)) \<and>
   (optimizer \<notin> set supported_optimizers \<and> num_classes_attr w \<noteq> None \<longrightarrow>
      fst (init_optim t w optimizer) =
        Inl (RuntimeError ''Incorrect `optimizer` parameter. Check type hint.'')) \<and>
   (architecture_of model = Some a \<and> pretrained t a = Inr () \<and> checkpoint = None \<longrightarrow>
      fst (load_model t w n model checkpoint) = Inr ()) \<and>
   (architecture_of model = Some a \<and> pretrained t a = Inr () \<and> checkpoint = Some path \<and>
    torch_load t path = Inr sd \<and> load_state_dict t (finish_model a n) sd = Inr () \<longrightarrow>
      fst (load_model t w n model checkpoint) = Inr ()) \<and>
   (optimizer \<in> set supported_optimizers \<and> num_classes_attr w \<noteq> None \<and>
    model_attr w \<noteq> None \<and> 0 \<le> LR w \<and> 0 \<le> WEIGHT_DECAY w \<longrightarrow>
      fst (init_optim t w optimizer) = Inr ())"
proof (intro conjI impI)
  assume "model \<notin> set supported_models"
  then show "fst (load_model t w n model checkpoint) =
        Inl (RuntimeError ''Incorrect `model` parameter. Check type hint.'')"
    by (simp add: supported_models_def load_model_def)
next
  assume "optimizer \<notin> set supported_optimizers"
  then show "\<exists>err. fst (init_optim t w optimizer) = Inl err"
    by (simp add: supported_optimizers_def init_optim_def Let_def split: option.splits)
next
  assume "optimizer \<notin> set supported_optimizers \<and> num_classes_attr w \<noteq> None"
  then show "fst (init_optim t w optimizer) =
        Inl (RuntimeError ''Incorrect `optimizer` parameter. Check type hint.'')"
    by (auto simp: supported_optimizers_def init_optim_def Let_def split: option.splits)
next
  assume "architecture_of model = Some a \<and> pretrained t a = Inr () \<and> checkpoint = None"
  then show "fst (load_model t w n model checkpoint) = Inr ()"
    by (auto simp: architecture_of_def load_model_def build_model_def Let_def split: if_splits)
next
  assume "architecture_of model = Some a \<and> pretrained t a = Inr () \<and> checkpoint = Some path \<and>
    torch_load t path = Inr sd \<and> load_state_dict t (finish_model a n) sd = Inr ()"
  then show "fst (load_model t w n model checkpoint) = Inr ()"
    by (auto simp: architecture_of_def load_model_def build_model_def Let_def split: if_splits)
next
  assume "optimizer \<in> set supported_optimizers \<and> num_classes_attr w \<noteq> None \<and>
    model_attr w \<noteq> None \<and> 0 \<le> LR w \<and> 0 \<le> WEIGHT_DECAY w"
  then show "fst (init_optim t w optimizer) = Inr ()"
    by (auto simp: supported_optimizers_def init_optim_def check_optimizer_args_def Let_def)
qed

text \<open>
  The theorem at two rejected selectors, at vgg11 without a checkpoint and with the
  checkpoint \<^verbatim>\<open>best.pth\<close>, and at Adam.
\<close>

theorem selector_errors_witness:
  "''resnet18'' \<notin> set supported_models \<and>
   fst (load_model demo_torch new_wrapper 10 ''resnet18'' None) =
     Inl (RuntimeError ''Incorrect `model` parameter. Check type hint.'') \<and>
   ''RMSprop'' \<notin> set supported_optimizers \<and> num_classes_attr demo_wrapper \<noteq> None \<and>
   fst (init_optim demo_torch demo_wrapper ''RMSprop'') =
     Inl (RuntimeError ''Incorrect `optimizer` parameter. Check type hint.'') \<and>
   architecture_of ''vgg11'' = Some VGG11 \<and> pretrained demo_torch VGG11 = Inr () \<and>
   fst (load_model demo_torch new_wrapper 10 ''vgg11'' None) = Inr () \<and>
   torch_load demo_torch ''best.pth'' = Inr (VGG11, 10) \<and>
   load_state_dict demo_torch (finish_model VGG11 10) (VGG11, 10) = Inr () \<and>
   fst (load_model demo_torch new_wrapper 10 ''vgg11'' (Some ''best.pth'')) = Inr () \<and>
   ''Adam'' \<in> set supported_optimizers \<and> model_attr demo_wrapper \<noteq> None \<and>
   0 \<le> LR demo_wrapper \<and> 0 \<le> WEIGHT_DECAY demo_wrapper \<and>
   fst (init_optim demo_torch demo_wrapper ''Adam'') = Inr ()"
proof -
  have a: "''resnet18'' \<notin> set supported_models" by (simp add: supported_models_def)
  have b: "''RMSprop'' \<notin> set supported_optimizers" "''Adam'' \<in> set supported_optimizers"
    by (simp_all add: supported_optimizers_def)
  have c: "num_classes_attr demo_wrapper \<noteq> None" "model_attr demo_wrapper \<noteq> None"
    "0 \<le> LR demo_wrapper" "0 \<le> WEIGHT_DECAY demo_wrapper"
    by (simp_all add: demo_wrapper_def new_wrapper_def)
  have d: "architecture_of ''vgg11'' = Some VGG11" "pretrained demo_torch VGG11 = Inr ()"
    "torch_load demo_torch ''best.pth'' = Inr (VGG11, 10)"
    "load_state_dict demo_torch (finish_model VGG11 10) (VGG11, 10) = Inr ()"
    by (simp_all add: architecture_of_def demo_torch_def finish_model_def)
  from selector_errors[of "''resnet18''" demo_torch new_wrapper 10 None "''RMSprop''" VGG11 "''best.pth''" "(VGG11, 10)"]
    selector_errors[of "''vgg11''" demo_torch new_wrapper 10 None "''RMSprop''" VGG11 "''best.pth''" "(VGG11, 10)"]
    selector_errors[of "''vgg11''" demo_torch new_wrapper 10 "Some ''best.pth''" "''RMSprop''" VGG11 "''best.pth''" "(VGG11, 10)"]
    selector_errors[of "''vgg11''" demo_torch demo_wrapper 10 None "''RMSprop''" VGG11 "''best.pth''" "(VGG11, 10)"]
    selector_errors[of "''vgg11''" demo_torch demo_wrapper 10 None "''Adam''" VGG11 "''best.pth''" "(VGG11, 10)"]
    a b c d
  show ?thesis by simp
qed

text \<open>
  C9 as stated fails twice. The messages raised for the selectors \<^verbatim>\<open>resnet18\<close> and
  \<^verbatim>\<open>RMSprop\<close> do not contain these values. And a supported selector does not exclude an
  error at setup: vgg11 with a checkpoint file that does not exist raises
  FileNotFoundError, and SGD with the learning rate \<open>-1\<close> raises ValueError.
\<close>

theorem setup_errors_counterexample:
  "fst (load_model demo_torch new_wrapper 10 ''resnet18'' None) =
     Inl (RuntimeError ''Incorrect `model` parameter. Check type hint.'') \<and>
   \<not> occurs_in ''resnet18'' ''Incorrect `model` parameter. Check type hint.'' \<and>
   fst (init_optim demo_torch demo_wrapper ''RMSprop'') =
     Inl (RuntimeError ''Incorrect `optimizer` parameter. Check type hint.'') \<and>
   \<not> occurs_in ''RMSprop'' ''Incorrect `optimizer` parameter. Check type hint.'' \<and>
   fst (load_model demo_torch new_wrapper 10 ''vgg11'' (Some ''missing.pth'')) =
     Inl (FileNotFoundError ''missing.pth'') \<and>
   fst (init_optim demo_torch (demo_wrapper\<lparr>LR := - 1\<rparr>) ''SGD'') =
     Inl (ValueError ''Invalid learning rate: -1.0'')"
  by (simp add: load_model_def build_model_def init_optim_def check_optimizer_args_def Let_def
      demo_torch_def demo_wrapper_def new_wrapper_def finish_model_def demo_str_float_def
      digit_char_def)

subsection \<open>C10: an empty loader\<close>

text \<open>
  C10. With an empty train loader the train step raises ZeroDivisionError, and with an
  empty test loader the test step does; with a loader that is not empty the step returns
  its means.
\<close>

theorem empty_loader_divides_by_zero:
  "(train_loader c = [] \<longrightarrow> train_step c s = Inl ZeroDivisionError) \<and>
   (test_loader c = [] \<longrightarrow> test_step c prev s = Inl ZeroDivisionError) \<and>
   (train_loader c \<noteq> [] \<longrightarrow> (\<exists>r. train_step c s = Inr r)) \<and>
   (test_loader c \<noteq> [] \<longrightarrow> (\<exists>r. test_step c prev s = Inr r))"
  by (auto simp: train_step_def test_step_def Let_def split: prod.splits)

text \<open>
The theorem on the concrete session, with its loaders emptied and as they are.
\<close>

theorem empty_loader_divides_by_zero_witness:
  "train_loader empty_env = [] \<and> test_loader empty_env = [] \<and>
   train_step empty_env (demo_state 0 2 0) = Inl ZeroDivisionError \<and>
   test_step empty_env 0 (demo_state 0 2 0) = Inl ZeroDivisionError \<and>
   train_loader demo_env \<noteq> [] \<and> test_loader demo_env \<noteq> [] \<and>
   (\<exists>r. train_step demo_env (demo_state 0 2 0) = Inr r) \<and>
   (\<exists>r. test_step demo_env 0 (demo_state 0 2 0) = Inr r)"
proof -
  have e: "train_loader empty_env = []" "test_loader empty_env = []"
    by (simp_all add: empty_env_def)
  have d: "train_loader demo_env \<noteq> []" "test_loader demo_env \<noteq> []"
    by (simp_all add: demo_env_def)
  from empty_loader_divides_by_zero[of empty_env "demo_state 0 2 0" 0]
    empty_loader_divides_by_zero[of demo_env "demo_state 0 2 0" 0] e d
  show ?thesis by simp
qed

end
